theory Spec2Isabelle
  imports Main "HOL-Library.AList"
begin

section \<open>JSON values as the Python code holds them\<close>

text \<open>
  \<^verbatim>\<open>request.get_json()\<close> hands the dispatcher a Python object built from JSON:
  \<^verbatim>\<open>None\<close>, a \<^verbatim>\<open>bool\<close>, an \<^verbatim>\<open>int\<close>, a \<^verbatim>\<open>str\<close>, a \<^verbatim>\<open>list\<close> or a \<^verbatim>\<open>dict\<close> with string keys.
  A \<^verbatim>\<open>dict\<close> is an association list in insertion order whose keys are meant to be distinct;
  a string is its UTF-8 byte sequence. Python's \<^verbatim>\<open>float\<close> is not part of the model.
  \<^verbatim>\<open>JNull\<close> is Python's \<^verbatim>\<open>None\<close>: what \<^verbatim>\<open>get_json\<close> yields for the body \<^verbatim>\<open>null\<close> and what it yields
  when it has no parsed body to hand over.
\<close>

datatype json =
    JNull
  | JBool bool
  | JInt int
  | JStr string
  | JArr "json list"
  | JObj "(string \<times> json) list"

text \<open>Python truthiness, as tested by \<^verbatim>\<open>if not data\<close>.\<close>

fun py_falsy :: "json \<Rightarrow> bool" where
  "py_falsy JNull = True"
| "py_falsy (JBool b) = (\<not> b)"
| "py_falsy (JInt i) = (i = 0)"
| "py_falsy (JStr s) = (s = [])"
| "py_falsy (JArr xs) = (xs = [])"
| "py_falsy (JObj kvs) = (kvs = [])"

text \<open>\<^verbatim>\<open>d.get(k, default)\<close> on a \<^verbatim>\<open>dict\<close>.\<close>

definition dict_get :: "(string \<times> json) list \<Rightarrow> string \<Rightarrow> json \<Rightarrow> json" where
  "dict_get d k dflt = (case map_of d k of None \<Rightarrow> dflt | Some v \<Rightarrow> v)"

subsection \<open>Rendering values as text\<close>

text \<open>\<^verbatim>\<open>str(n)\<close> of a Python \<^verbatim>\<open>int\<close>: decimal digits, a leading minus sign when negative.\<close>

fun str_of_nat :: "nat \<Rightarrow> string" where
  "str_of_nat n =
     (if n < 10 then [char_of (48 + n)]
      else str_of_nat (n div 10) @ [char_of (48 + n mod 10)])"

declare str_of_nat.simps [simp del]

definition str_of_int :: "int \<Rightarrow> string" where
  "str_of_int i = (if i < 0 then CHR ''-'' # str_of_nat (nat (- i)) else str_of_nat (nat i))"

text \<open>
  \<^verbatim>\<open>str(v)\<close> as an f-string applies it (\<^verbatim>\<open>f"... {v}"\<close>). The text of a \<^verbatim>\<open>list\<close> or a \<^verbatim>\<open>dict\<close>
  is built from Python's \<^verbatim>\<open>repr\<close> of its members, which belongs to the language runtime:
  it is the parameter \<open>repr\<close>.
\<close>

fun py_str :: "(json \<Rightarrow> string) \<Rightarrow> json \<Rightarrow> string" where
  "py_str repr JNull = ''None''"
| "py_str repr (JBool b) = (if b then ''True'' else ''False'')"
| "py_str repr (JInt i) = str_of_int i"
| "py_str repr (JStr s) = s"
| "py_str repr (JArr xs) = repr (JArr xs)"
| "py_str repr (JObj kvs) = repr (JObj kvs)"

text \<open>
  \<^verbatim>\<open>json.dumps(v, ensure_ascii=False, default=str)\<close> on a value of the model: the compact
  literals, \<^verbatim>\<open>", "\<close> between items and \<^verbatim>\<open>": "\<close> after a key (the default separators), and
  strings quoted with only the quote, the backslash and the control characters below
  \<^verbatim>\<open>0x20\<close> escaped (\<^verbatim>\<open>ensure_ascii=False\<close> leaves every other byte as it is). Every value of
  the model is serializable, so \<^verbatim>\<open>default\<close> is never consulted.
\<close>

definition hex_digit :: "nat \<Rightarrow> char" where
  "hex_digit n = (if n < 10 then char_of (48 + n) else char_of (87 + n))"

definition escape_char :: "char \<Rightarrow> string" where
  "escape_char c =
     (if c = CHR 0x22 then [CHR 0x5C, CHR 0x22]
      else if c = CHR 0x5C then [CHR 0x5C, CHR 0x5C]
      else if c = CHR 0x0A then [CHR 0x5C, CHR ''n'']
      else if c = CHR 0x0D then [CHR 0x5C, CHR ''r'']
      else if c = CHR 0x09 then [CHR 0x5C, CHR ''t'']
      else if c = CHR 0x08 then [CHR 0x5C, CHR ''b'']
      else if c = CHR 0x0C then [CHR 0x5C, CHR ''f'']
      else if (of_char c :: nat) < 32
        then [CHR 0x5C, CHR ''u'', CHR ''0'', CHR ''0'',
              hex_digit (of_char c div 16), hex_digit (of_char c mod 16)]
      else [c])"

definition py_encode_basestring :: "string \<Rightarrow> string" where
  "py_encode_basestring s = [CHR 0x22] @ concat (map escape_char s) @ [CHR 0x22]"

fun join :: "string \<Rightarrow> string list \<Rightarrow> string" where
  "join sep [] = []"
| "join sep [x] = x"
| "join sep (x # y # ys) = x @ sep @ join sep (y # ys)"

fun json_dumps :: "json \<Rightarrow> string" where
  "json_dumps JNull = ''null''"
| "json_dumps (JBool b) = (if b then ''true'' else ''false'')"
| "json_dumps (JInt i) = str_of_int i"
| "json_dumps (JStr s) = py_encode_basestring s"
| "json_dumps (JArr xs) = ''['' @ join '', '' (map json_dumps xs) @ '']''"
| "json_dumps (JObj kvs) =
     ''{'' @ join '', '' (map (\<lambda>kv. py_encode_basestring (fst kv) @ '': '' @ json_dumps (snd kv)) kvs)
       @ ''}''"

section \<open>The server and its tool registry\<close>

text \<open>
  What evaluating \<^verbatim>\<open>handler(**arguments)\<close> can do: return a value, raise an instance of
  \<^verbatim>\<open>Exception\<close> whose \<^verbatim>\<open>str\<close> is the given message, or raise something that is not an
  \<^verbatim>\<open>Exception\<close> (\<^verbatim>\<open>SystemExit\<close>, \<^verbatim>\<open>KeyboardInterrupt\<close>), which \<^verbatim>\<open>except Exception\<close> lets through.
\<close>

datatype call_outcome = Returns json | Raises string | RaisesBase string

text \<open>
  One value of \<^verbatim>\<open>self.tools\<close>. The field \<open>handler\<close> stands for the evaluation of
  \<^verbatim>\<open>func(**arguments)\<close> as a whole, Python's binding of the keyword arguments to the
  function's signature included (a \<^verbatim>\<open>TypeError\<close>, hence \<open>Raises\<close>, when \<^verbatim>\<open>arguments\<close> is
  not a mapping or does not fit the signature).
\<close>

record tool_def =
  name :: string
  description :: string
  inputSchema :: json
  handler :: "json \<Rightarrow> call_outcome"

text \<open>
  \<^verbatim>\<open>class MCPServer\<close>: \<^verbatim>\<open>self.name\<close>, \<^verbatim>\<open>self.description\<close>, \<^verbatim>\<open>self.version\<close> and \<^verbatim>\<open>self.tools\<close>,
  a \<^verbatim>\<open>dict\<close> from tool name to definition, kept in insertion order.
\<close>

record MCPServer =
  server_name :: string
  server_description :: string
  version :: string
  tools :: "(string \<times> tool_def) list"

definition MCPServer_init :: "string \<Rightarrow> string \<Rightarrow> string \<Rightarrow> MCPServer" where
  "MCPServer_init nm descr ver =
     \<lparr>server_name = nm, server_description = descr, version = ver, tools = []\<rparr>"

text \<open>
  \<^verbatim>\<open>MCPServer.tool(name, description, parameters)(func)\<close>: the decorator's effect on the
  server is the assignment \<^verbatim>\<open>self.tools[name] = {...}\<close>. Assigning to a key a \<^verbatim>\<open>dict\<close> already
  has replaces the value where it stands; a new key goes to the end. That is
  \<^const>\<open>AList.update\<close>. There is no other branch: the decorator tests nothing and
  raises nothing.
\<close>

definition tool_dict ::
  "string \<Rightarrow> string \<Rightarrow> (string \<times> json) list \<Rightarrow> (json \<Rightarrow> call_outcome) \<Rightarrow> tool_def"
where
  "tool_dict nm descr parameters func =
     \<lparr>name = nm,
      description = descr,
      inputSchema = JObj [(''type'', JStr ''object''),
                          (''properties'', dict_get parameters ''properties'' (JObj [])),
                          (''required'', dict_get parameters ''required'' (JArr []))],
      handler = func\<rparr>"

definition tool ::
  "MCPServer \<Rightarrow> string \<Rightarrow> string \<Rightarrow> (string \<times> json) list \<Rightarrow> (json \<Rightarrow> call_outcome) \<Rightarrow> MCPServer"
where
  "tool self nm descr parameters func =
     self\<lparr>tools := AList.update nm (tool_dict nm descr parameters func) (tools self)\<rparr>"

text \<open>
  The module's start-up: \<^verbatim>\<open>server = MCPServer(...)\<close> followed by the decorated functions,
  one registration after the other. A registration is the decorator's three arguments
  and the decorated function.
\<close>

type_synonym registration =
  "string \<times> string \<times> (string \<times> json) list \<times> (json \<Rightarrow> call_outcome)"

fun register :: "MCPServer \<Rightarrow> registration \<Rightarrow> MCPServer" where
  "register self (nm, descr, parameters, func) = tool self nm descr parameters func"

definition startup :: "string \<Rightarrow> string \<Rightarrow> string \<Rightarrow> registration list \<Rightarrow> MCPServer" where
  "startup nm descr ver regs = foldl register (MCPServer_init nm descr ver) regs"

section \<open>The dispatcher\<close>

text \<open>
  A Python exception that \<^verbatim>\<open>_handle_mcp_request\<close> does not catch: \<^verbatim>\<open>.get\<close> on an object that
  is not a \<^verbatim>\<open>dict\<close>, membership of an unhashable \<^verbatim>\<open>list\<close> or \<^verbatim>\<open>dict\<close> in \<^verbatim>\<open>self.tools\<close>, or what a
  handler raised past \<^verbatim>\<open>except Exception\<close>.
\<close>

datatype py_exception = AttributeError | TypeError | Uncaught string

text \<open>
  The outcome of one call of \<^verbatim>\<open>_handle_mcp_request\<close>: what it returns to Flask (the object
  given to \<^verbatim>\<open>jsonify\<close> and the HTTP status, 200 when the code names none) or the exception it
  lets escape; the handler invocations it made, each with the requested tool name and the
  \<^verbatim>\<open>arguments\<close> object passed; and the server object as the call leaves it.
\<close>

record exchange =
  reply :: "py_exception + json \<times> nat"
  handler_calls :: "(json \<times> json) list"
  server_after :: MCPServer

definition result_envelope :: "json \<Rightarrow> json \<Rightarrow> json" where
  "result_envelope request_id res =
     JObj [(''jsonrpc'', JStr ''2.0''), (''id'', request_id), (''result'', res)]"

definition error_envelope :: "json \<Rightarrow> int \<Rightarrow> string \<Rightarrow> json" where
  "error_envelope request_id code message =
     JObj [(''jsonrpc'', JStr ''2.0''), (''id'', request_id),
           (''error'', JObj [(''code'', JInt code), (''message'', JStr message)])]"

definition responds :: "MCPServer \<Rightarrow> json \<Rightarrow> nat \<Rightarrow> exchange" where
  "responds self body status =
     \<lparr>reply = Inr (body, status), handler_calls = [], server_after = self\<rparr>"

definition raises :: "MCPServer \<Rightarrow> py_exception \<Rightarrow> exchange" where
  "raises self e = \<lparr>reply = Inl e, handler_calls = [], server_after = self\<rparr>"

text \<open>One entry of the \<^verbatim>\<open>tools/list\<close> comprehension.\<close>

definition tool_entry :: "tool_def \<Rightarrow> json" where
  "tool_entry t =
     JObj [(''name'', JStr (name t)),
           (''description'', JStr (description t)),
           (''inputSchema'', inputSchema t)]"

text \<open>
  \<^verbatim>\<open>tool_name not in self.tools\<close> hashes \<^verbatim>\<open>tool_name\<close> first: a \<^verbatim>\<open>list\<close> or a \<^verbatim>\<open>dict\<close> raises
  \<^verbatim>\<open>TypeError\<close>. The keys of \<^verbatim>\<open>self.tools\<close> are strings, so no other kind of value is among them.
\<close>

fun unhashable :: "json \<Rightarrow> bool" where
  "unhashable (JArr xs) = True"
| "unhashable (JObj kvs) = True"
| "unhashable v = False"

fun tools_get :: "(string \<times> tool_def) list \<Rightarrow> json \<Rightarrow> tool_def option" where
  "tools_get ts (JStr n) = map_of ts n"
| "tools_get ts v = None"

text \<open>
  The \<^verbatim>\<open>try\<close> block of \<^verbatim>\<open>tools/call\<close>: the handler is called with the arguments as they came;
  its value is serialized into the single text entry, its \<^verbatim>\<open>Exception\<close> becomes the error
  \<^verbatim>\<open>-32603\<close> with \<^verbatim>\<open>str(e)\<close> as message.
\<close>

definition call_tool :: "MCPServer \<Rightarrow> json \<Rightarrow> json \<Rightarrow> tool_def \<Rightarrow> json \<Rightarrow> exchange" where
  "call_tool self request_id tool_name t arguments =
     \<lparr>reply =
        (case handler t arguments of
           Returns result \<Rightarrow>
             Inr (result_envelope request_id
                    (JObj [(''content'',
                            JArr [JObj [(''type'', JStr ''text''),
                                        (''text'', JStr (json_dumps result))]])]),
                  200)
         | Raises msg \<Rightarrow> Inr (error_envelope request_id (- 32603) msg, 200)
         | RaisesBase msg \<Rightarrow> Inl (Uncaught msg)),
      handler_calls = [(tool_name, arguments)],
      server_after = self\<rparr>"

text \<open>
  \<^verbatim>\<open>MCPServer._handle_mcp_request\<close>, with \<open>data\<close> the value of \<^verbatim>\<open>request.get_json()\<close>.
\<close>

definition handle_mcp_request :: "(json \<Rightarrow> string) \<Rightarrow> MCPServer \<Rightarrow> json \<Rightarrow> exchange" where
  "handle_mcp_request repr self data =
     (if py_falsy data then responds self (error_envelope JNull (- 32700) ''Parse error'') 400
      else case data of
        JObj d \<Rightarrow>
          (let request_id = dict_get d ''id'' JNull;
               method = dict_get d ''method'' (JStr '''');
               params = dict_get d ''params'' (JObj [])
           in if method = JStr ''initialize'' then
                responds self
                  (result_envelope request_id
                     (JObj [(''protocolVersion'', JStr ''2024-11-05''),
                            (''serverInfo'', JObj [(''name'', JStr (server_name self)),
                                                   (''version'', JStr (version self))]),
                            (''capabilities'',
                               JObj [(''tools'', JObj [(''listChanged'', JBool False)])])]))
                  200
              else if method = JStr ''tools/list'' then
                responds self
                  (result_envelope request_id
                     (JObj [(''tools'', JArr (map (\<lambda>kt. tool_entry (snd kt)) (tools self)))]))
                  200
              else if method = JStr ''tools/call'' then
                (case params of
                   JObj p \<Rightarrow>
                     (let tool_name = dict_get p ''name'' JNull;
                          arguments = dict_get p ''arguments'' (JObj [])
                      in if unhashable tool_name then raises self TypeError
                         else case tools_get (tools self) tool_name of
                                None \<Rightarrow>
                                  responds self
                                    (error_envelope request_id (- 32601)
                                       (''Tool not found: '' @ py_str repr tool_name))
                                    200
                              | Some t \<Rightarrow> call_tool self request_id tool_name t arguments)
                 | _ \<Rightarrow> raises self AttributeError)
              else
                responds self
                  (error_envelope request_id (- 32601)
                     (''Method not found: '' @ py_str repr method))
                  200)
      | _ \<Rightarrow> raises self AttributeError)"

section \<open>Registration order\<close>

text \<open>
  The order in which names enter a \<^verbatim>\<open>dict\<close>: each name where it was first registered.
\<close>

definition registration_order :: "string list \<Rightarrow> string list" where
  "registration_order names =
     foldl (\<lambda>seen n. if n \<in> set seen then seen else seen @ [n]) [] names"

fun registered_definition :: "registration \<Rightarrow> tool_def" where
  "registered_definition (nm, descr, parameters, func) = tool_dict nm descr parameters func"

section \<open>The declared schema against the arguments\<close>

text \<open>
  The binding policy in the specification's words: the keys listed in
  \<open>inputSchema.required\<close>, and those of them that an arguments mapping omits.
\<close>

definition required_keys :: "tool_def \<Rightarrow> string list" where
  "required_keys t =
     (case inputSchema t of
        JObj schema \<Rightarrow>
          (case dict_get schema ''required'' (JArr []) of
             JArr ks \<Rightarrow> concat (map (\<lambda>k. case k of JStr s \<Rightarrow> [s] | _ \<Rightarrow> []) ks)
           | _ \<Rightarrow> [])
      | _ \<Rightarrow> [])"

definition missing_keys :: "tool_def \<Rightarrow> json \<Rightarrow> string list" where
  "missing_keys t arguments =
     (case arguments of
        JObj kw \<Rightarrow> filter (\<lambda>k. map_of kw k = None) (required_keys t)
      | _ \<Rightarrow> required_keys t)"

section \<open>A small server to run the dispatcher on\<close>

text \<open>
  Two tools in the style of the module's own registrations: \<open>calculate\<close> requires
  \<open>expression\<close> and its function has no default for it; \<open>get_prayer_times\<close> requires
  nothing. The functions stand in for the external tool modules.
\<close>

definition demo_calculate :: "json \<Rightarrow> call_outcome" where
  "demo_calculate arguments =
     (case arguments of
        JObj kw \<Rightarrow>
          (case map_of kw ''expression'' of
             None \<Rightarrow> Raises ''calculate() missing 1 required positional argument''
           | Some e \<Rightarrow>
               if e = JStr ''2 + 2'' then Returns (JObj [(''result'', JInt 4)])
               else Raises ''unsupported expression'')
      | _ \<Rightarrow> Raises ''argument after ** must be a mapping'')"

definition demo_prayer_times :: "json \<Rightarrow> call_outcome" where
  "demo_prayer_times arguments = Returns (JObj [(''city'', JStr ''Ouagadougou'')])"

definition demo_registrations :: "registration list" where
  "demo_registrations =
     [(''calculate'', ''Effectue des calculs'',
         [(''properties'', JObj [(''expression'', JObj [(''type'', JStr ''string'')])]),
          (''required'', JArr [JStr ''expression''])],
         demo_calculate),
      (''get_prayer_times'', ''Horaires des 5 prieres'',
         [(''properties'', JObj [(''city'', JObj [(''type'', JStr ''string'')])]),
          (''required'', JArr [])],
         demo_prayer_times)]"

definition demo_server :: MCPServer where
  "demo_server = startup ''info-agent'' ''Agent d information'' ''2.0.0'' demo_registrations"

definition demo_repr :: "json \<Rightarrow> string" where
  "demo_repr v = ''<container>''"

text \<open>
  A registration whose schema requires \<open>city\<close> while its function, like the module's
  \<^verbatim>\<open>get_prayer_times\<close>, has a default for it.
\<close>

definition city_required_server :: MCPServer where
  "city_required_server =
     tool (MCPServer_init ''info-agent'' ''Agent d information'' ''2.0.0'')
       ''get_prayer_times'' ''Horaires des 5 prieres''
       [(''properties'', JObj [(''city'', JObj [(''type'', JStr ''string'')])]),
        (''required'', JArr [JStr ''city''])]
       demo_prayer_times"

definition prayer_times_request :: json where
  "prayer_times_request =
     JObj [(''jsonrpc'', JStr ''2.0''), (''id'', JInt 7), (''method'', JStr ''tools/call''),
           (''params'', JObj [(''name'', JStr ''get_prayer_times''), (''arguments'', JObj [])])]"

section \<open>The parsing gate\<close>

lemma handle_falsy:
  "py_falsy data \<Longrightarrow>
   handle_mcp_request repr self data =
     responds self (error_envelope JNull (- 32700) ''Parse error'') 400"
  by (simp add: handle_mcp_request_def)

lemma py_falsy_cases:
  "py_falsy data \<longleftrightarrow>
     data = JNull \<or> data = JBool False \<or> data = JInt 0 \<or> data = JStr [] \<or>
     data = JArr [] \<or> data = JObj []"
  by (cases data) auto


text \<open>
  C10. A body that parses to a falsy value (the empty object, \<open>false\<close>, \<open>0\<close>, \<open>null\<close>, the
  empty array, and the empty string as well) gets what an absent body gets, the value
  \<^verbatim>\<open>None\<close>: the error \<open>-32700\<close> "Parse error" with id \<open>null\<close> on HTTP status 400, no
  handler run and the server untouched.
\<close>

theorem falsy_body_is_parse_error:
  assumes "data \<in> {JObj [], JBool False, JInt 0, JNull, JArr [], JStr []}"
  shows "handle_mcp_request repr self data = handle_mcp_request repr self JNull \<and>
         reply (handle_mcp_request repr self data) =
           Inr (JObj [(''jsonrpc'', JStr ''2.0''), (''id'', JNull),
                      (''error'', JObj [(''code'', JInt (- 32700)),
                                        (''message'', JStr ''Parse error'')])],
                400)"
proof -
  from assms have "py_falsy data" by (auto simp: py_falsy_cases)
  then show ?thesis
    by (simp add: handle_falsy responds_def error_envelope_def)
qed

theorem falsy_body_is_parse_error_witness:
  "handle_mcp_request demo_repr demo_server (JObj []) =
     handle_mcp_request demo_repr demo_server JNull \<and>
   reply (handle_mcp_request demo_repr demo_server (JObj [])) =
     Inr (JObj [(''jsonrpc'', JStr ''2.0''), (''id'', JNull),
                (''error'', JObj [(''code'', JInt (- 32700)),
                                  (''message'', JStr ''Parse error'')])],
          400)"
proof -
  have "JObj [] \<in> {JObj [], JBool False, JInt 0, JNull, JArr [], JStr []}" by simp
  from falsy_body_is_parse_error [OF this, of demo_repr demo_server] show ?thesis .
qed



section \<open>Routing by method\<close>

lemma dict_get_Nil [simp]: "dict_get [] k dflt = dflt"
  by (simp add: dict_get_def)

lemma handle_object:
  "d \<noteq> [] \<Longrightarrow>
   handle_mcp_request repr self (JObj d) =
     (let request_id = dict_get d ''id'' JNull;
          method = dict_get d ''method'' (JStr '''');
          params = dict_get d ''params'' (JObj [])
      in if method = JStr ''initialize'' then
           responds self
             (result_envelope request_id
                (JObj [(''protocolVersion'', JStr ''2024-11-05''),
                       (''serverInfo'', JObj [(''name'', JStr (server_name self)),
                                              (''version'', JStr (version self))]),
                       (''capabilities'',
                          JObj [(''tools'', JObj [(''listChanged'', JBool False)])])]))
             200
         else if method = JStr ''tools/list'' then
           responds self
             (result_envelope request_id
                (JObj [(''tools'', JArr (map (\<lambda>kt. tool_entry (snd kt)) (tools self)))]))
             200
         else if method = JStr ''tools/call'' then
           (case params of
              JObj p \<Rightarrow>
                (let tool_name = dict_get p ''name'' JNull;
                     arguments = dict_get p ''arguments'' (JObj [])
                 in if unhashable tool_name then raises self TypeError
                    else case tools_get (tools self) tool_name of
                           None \<Rightarrow>
                             responds self
                               (error_envelope request_id (- 32601)
                                  (''Tool not found: '' @ py_str repr tool_name))
                               200
                         | Some t \<Rightarrow> call_tool self request_id tool_name t arguments)
            | _ \<Rightarrow> raises self AttributeError)
         else
           responds self
             (error_envelope request_id (- 32601)
                (''Method not found: '' @ py_str repr method))
             200)"
  by (simp add: handle_mcp_request_def)

lemma method_present_nonempty:
  "dict_get d ''method'' (JStr '''') = JStr m \<Longrightarrow> m \<noteq> [] \<Longrightarrow> d \<noteq> []"
  by (cases d) simp_all

text \<open>
  C5. A request is a JSON object that passed the parsing gate, so a non-empty one (an
  object that carries a \<open>method\<close> member is non-empty). Its method is the member
  \<open>method\<close>, the empty string when the member is missing. When that is none of
  \<open>initialize\<close>, \<open>tools/list\<close>, \<open>tools/call\<close>, the reply is the error \<open>-32601\<close> on status 200
  whose message is \<open>Method not found: \<close> followed by the method as \<^verbatim>\<open>str\<close> renders it (a
  string method is rendered as itself), with the request's id (\<open>null\<close> when it has
  none); no handler runs.
\<close>

theorem unknown_method_not_found:
  assumes "data = JObj d" and "d \<noteq> []"
    and "method = dict_get d ''method'' (JStr '''')"
    and "method \<notin> {JStr ''initialize'', JStr ''tools/list'', JStr ''tools/call''}"
  shows "reply (handle_mcp_request repr self data) =
           Inr (JObj [(''jsonrpc'', JStr ''2.0''), (''id'', dict_get d ''id'' JNull),
                      (''error'', JObj [(''code'', JInt (- 32601)),
                                        (''message'',
                                           JStr (''Method not found: '' @ py_str repr method))])],
                200) \<and>
         py_str repr (JStr m) = m \<and>
         handler_calls (handle_mcp_request repr self data) = []"
  using assms by (simp add: handle_object responds_def error_envelope_def)

theorem unknown_method_not_found_witness:
  "reply (handle_mcp_request demo_repr demo_server
            (JObj [(''jsonrpc'', JStr ''2.0''), (''id'', JInt 4), (''method'', JStr ''frobnicate'')])) =
     Inr (JObj [(''jsonrpc'', JStr ''2.0''), (''id'', JInt 4),
                (''error'', JObj [(''code'', JInt (- 32601)),
                                  (''message'', JStr ''Method not found: frobnicate'')])],
          200)"
  using unknown_method_not_found
          [of "JObj [(''jsonrpc'', JStr ''2.0''), (''id'', JInt 4), (''method'', JStr ''frobnicate'')]"
              "[(''jsonrpc'', JStr ''2.0''), (''id'', JInt 4), (''method'', JStr ''frobnicate'')]"
              "JStr ''frobnicate''" demo_repr demo_server]
  by (simp add: dict_get_def)

section \<open>Calling a tool\<close>

lemma handle_tools_call:
  assumes "dict_get d ''method'' (JStr '''') = JStr ''tools/call''"
    and "dict_get d ''params'' (JObj []) = JObj p"
  shows "handle_mcp_request repr self (JObj d) =
     (if unhashable (dict_get p ''name'' JNull) then raises self TypeError
      else case tools_get (tools self) (dict_get p ''name'' JNull) of
             None \<Rightarrow>
               responds self
                 (error_envelope (dict_get d ''id'' JNull) (- 32601)
                    (''Tool not found: '' @ py_str repr (dict_get p ''name'' JNull)))
                 200
           | Some t \<Rightarrow>
               call_tool self (dict_get d ''id'' JNull) (dict_get p ''name'' JNull) t
                 (dict_get p ''arguments'' (JObj [])))"
proof -
  from assms(1) have "d \<noteq> []" by (rule method_present_nonempty) simp
  with assms show ?thesis by (simp add: handle_object Let_def)
qed

lemma tools_get_unregistered:
  assumes "\<forall>n. tool_name = JStr n \<longrightarrow> n \<notin> fst ` set ts"
  shows "tools_get ts tool_name = None"
  using assms by (cases tool_name) (simp_all add: map_of_eq_None_iff)

text \<open>
  C2. A \<open>tools/call\<close> request whose \<open>params.name\<close> (\<^verbatim>\<open>None\<close> when the member is missing) is a
  string, a number, a boolean or \<^verbatim>\<open>None\<close> and is not a key of the registry: whatever else
  \<open>params\<close> holds, \<open>arguments\<close> included, the reply is the error \<open>-32601\<close> on status 200 with
  the message \<open>Tool not found: \<close> followed by the name as \<^verbatim>\<open>str\<close> renders it, with the
  request's id, and no handler has been called. (A name that is a JSON array or object is
  not a name the registry could hold: the membership test raises on it.)
\<close>

theorem unknown_tool_not_found:
  assumes "data = JObj d"
    and "dict_get d ''method'' (JStr '''') = JStr ''tools/call''"
    and "dict_get d ''params'' (JObj []) = JObj p"
    and "tool_name = dict_get p ''name'' JNull"
    and "\<not> unhashable tool_name"
    and "\<forall>n. tool_name = JStr n \<longrightarrow> n \<notin> fst ` set (tools self)"
  shows "reply (handle_mcp_request repr self data) =
           Inr (JObj [(''jsonrpc'', JStr ''2.0''), (''id'', dict_get d ''id'' JNull),
                      (''error'', JObj [(''code'', JInt (- 32601)),
                                        (''message'',
                                           JStr (''Tool not found: '' @ py_str repr tool_name))])],
                200) \<and>
         py_str repr (JStr n) = n \<and>
         handler_calls (handle_mcp_request repr self data) = [] \<and>
         server_after (handle_mcp_request repr self data) = self"
proof -
  from assms(6) have "tools_get (tools self) tool_name = None"
    by (rule tools_get_unregistered)
  with assms(1-5) show ?thesis
    by (simp add: handle_tools_call responds_def error_envelope_def)
qed

lemma demo_server_tools:
  "tools demo_server =
     [(''calculate'',
         tool_dict ''calculate'' ''Effectue des calculs''
           [(''properties'', JObj [(''expression'', JObj [(''type'', JStr ''string'')])]),
            (''required'', JArr [JStr ''expression''])]
           demo_calculate),
      (''get_prayer_times'',
         tool_dict ''get_prayer_times'' ''Horaires des 5 prieres''
           [(''properties'', JObj [(''city'', JObj [(''type'', JStr ''string'')])]),
            (''required'', JArr [])]
           demo_prayer_times)]"
  by (simp add: demo_server_def startup_def demo_registrations_def MCPServer_init_def tool_def)

theorem unknown_tool_not_found_witness:
  "reply (handle_mcp_request demo_repr demo_server
            (JObj [(''jsonrpc'', JStr ''2.0''), (''id'', JInt 3), (''method'', JStr ''tools/call''),
                   (''params'', JObj [(''name'', JStr ''unknown_tool''), (''arguments'', JObj [])])])) =
     Inr (JObj [(''jsonrpc'', JStr ''2.0''), (''id'', JInt 3),
                (''error'', JObj [(''code'', JInt (- 32601)),
                                  (''message'', JStr ''Tool not found: unknown_tool'')])],
          200) \<and>
   handler_calls (handle_mcp_request demo_repr demo_server
            (JObj [(''jsonrpc'', JStr ''2.0''), (''id'', JInt 3), (''method'', JStr ''tools/call''),
                   (''params'', JObj [(''name'', JStr ''unknown_tool''), (''arguments'', JObj [])])])) = []"
  using unknown_tool_not_found
          [of "JObj [(''jsonrpc'', JStr ''2.0''), (''id'', JInt 3), (''method'', JStr ''tools/call''),
                   (''params'', JObj [(''name'', JStr ''unknown_tool''), (''arguments'', JObj [])])]"
              "[(''jsonrpc'', JStr ''2.0''), (''id'', JInt 3), (''method'', JStr ''tools/call''),
                   (''params'', JObj [(''name'', JStr ''unknown_tool''), (''arguments'', JObj [])])]"
              "[(''name'', JStr ''unknown_tool''), (''arguments'', JObj [])]"
              "JStr ''unknown_tool''" demo_server demo_repr]
  by (simp add: dict_get_def demo_server_tools)

lemma handle_registered_call:
  assumes "dict_get d ''method'' (JStr '''') = JStr ''tools/call''"
    and "dict_get d ''params'' (JObj []) = JObj p"
    and "dict_get p ''name'' JNull = JStr n"
    and "map_of (tools self) n = Some t"
  shows "handle_mcp_request repr self (JObj d) =
           call_tool self (dict_get d ''id'' JNull) (JStr n) t (dict_get p ''arguments'' (JObj []))"
  using assms by (simp add: handle_tools_call)





text \<open>
  C8. A \<open>tools/call\<close> request that names a registered tool whose handler raises an
  \<^verbatim>\<open>Exception\<close>: the dispatcher still returns a response, the error \<open>-32603\<close> on status 200
  with the request's id, whose message is \<^verbatim>\<open>str(e)\<close> unchanged. The server object is what it
  was, so any request that follows is answered as if this one had not happened.
\<close>

theorem tools_call_failure_passthrough:
  assumes "data = JObj d"
    and "dict_get d ''method'' (JStr '''') = JStr ''tools/call''"
    and "dict_get d ''params'' (JObj []) = JObj p"
    and "dict_get p ''name'' JNull = JStr n"
    and "map_of (tools self) n = Some t"
    and "handler t (dict_get p ''arguments'' (JObj [])) = Raises msg"
  shows "reply (handle_mcp_request repr self data) =
           Inr (JObj [(''jsonrpc'', JStr ''2.0''), (''id'', dict_get d ''id'' JNull),
                      (''error'', JObj [(''code'', JInt (- 32603)), (''message'', JStr msg)])],
                200) \<and>
         server_after (handle_mcp_request repr self data) = self \<and>
         tools (server_after (handle_mcp_request repr self data)) = tools self \<and>
         handle_mcp_request repr (server_after (handle_mcp_request repr self data)) next_data =
           handle_mcp_request repr self next_data"
  using assms by (simp add: handle_registered_call call_tool_def error_envelope_def)

lemma demo_calculate_missing:
  "handler (tool_dict ''calculate'' descr parameters demo_calculate)
     (dict_get [(''name'', JStr ''calculate'')] ''arguments'' (JObj [])) =
   Raises ''calculate() missing 1 required positional argument''"
  by (simp add: tool_dict_def dict_get_def demo_calculate_def)

theorem tools_call_failure_passthrough_witness:
  "reply (handle_mcp_request demo_repr demo_server
            (JObj [(''jsonrpc'', JStr ''2.0''), (''id'', JStr ''a''), (''method'', JStr ''tools/call''),
                   (''params'', JObj [(''name'', JStr ''calculate'')])])) =
     Inr (JObj [(''jsonrpc'', JStr ''2.0''), (''id'', JStr ''a''),
                (''error'', JObj [(''code'', JInt (- 32603)),
                                  (''message'',
                                     JStr ''calculate() missing 1 required positional argument'')])],
          200)"
proof -
  let ?p = "[(''name'', JStr ''calculate'')]"
  let ?d = "[(''jsonrpc'', JStr ''2.0''), (''id'', JStr ''a''), (''method'', JStr ''tools/call''),
             (''params'', JObj ?p)]"
  have m: "dict_get ?d ''method'' (JStr '''') = JStr ''tools/call''"
    and ps: "dict_get ?d ''params'' (JObj []) = JObj ?p"
    and nm: "dict_get ?p ''name'' JNull = JStr ''calculate''"
    and rid: "dict_get ?d ''id'' JNull = JStr ''a''"
    by (simp_all add: dict_get_def)
  have t: "map_of (tools demo_server) ''calculate'' =
      Some (tool_dict ''calculate'' ''Effectue des calculs''
              [(''properties'', JObj [(''expression'', JObj [(''type'', JStr ''string'')])]),
               (''required'', JArr [JStr ''expression''])]
              demo_calculate)"
    by (simp add: demo_server_tools)
  from tools_call_failure_passthrough [OF refl m ps nm t demo_calculate_missing, of demo_repr]
  show ?thesis by (simp only: rid)
qed

subsection \<open>The declared schema is not enforced\<close>

text \<open>
  C3, as stated, fails: the tool is registered with \<open>city\<close> required, the arguments omit
  \<open>city\<close>, and yet the handler is called with them and its value comes back as a success.
\<close>

theorem required_enforced_counterexample:
  "map_of (tools city_required_server) ''get_prayer_times'' =
     Some (tool_dict ''get_prayer_times'' ''Horaires des 5 prieres''
             [(''properties'', JObj [(''city'', JObj [(''type'', JStr ''string'')])]),
              (''required'', JArr [JStr ''city''])]
             demo_prayer_times) \<and>
   missing_keys
     (tool_dict ''get_prayer_times'' ''Horaires des 5 prieres''
        [(''properties'', JObj [(''city'', JObj [(''type'', JStr ''string'')])]),
         (''required'', JArr [JStr ''city''])]
        demo_prayer_times)
     (JObj []) = [''city''] \<and>
   handler_calls (handle_mcp_request demo_repr city_required_server prayer_times_request) =
     [(JStr ''get_prayer_times'', JObj [])] \<and>
   reply (handle_mcp_request demo_repr city_required_server prayer_times_request) =
     Inr (result_envelope (JInt 7)
            (JObj [(''content'',
                     JArr [JObj [(''type'', JStr ''text''),
                                 (''text'',
                                    JStr (json_dumps (JObj [(''city'', JStr ''Ouagadougou'')])))]])]),
          200)"
  by (simp add: city_required_server_def prayer_times_request_def tool_def MCPServer_init_def
        tool_dict_def missing_keys_def required_keys_def dict_get_def handle_mcp_request_def
        call_tool_def demo_prayer_times_def)

text \<open>
  C3, amended. For a registered tool and any arguments, whatever keys of
  \<open>inputSchema.required\<close> they omit, the dispatcher checks nothing: it calls the handler
  once with the arguments as supplied, and the reply is decided by what the handler does
  (its value as the text content; the error \<open>-32603\<close> with its message when it raises an
  \<^verbatim>\<open>Exception\<close>). The declared schema plays no part: with any other schema in the tool's
  place the exchange is the same.
\<close>

theorem required_not_enforced:
  assumes "data = JObj d"
    and "dict_get d ''method'' (JStr '''') = JStr ''tools/call''"
    and "dict_get d ''params'' (JObj []) = JObj p"
    and "dict_get p ''name'' JNull = JStr n"
    and "map_of (tools self) n = Some t"
    and "arguments = dict_get p ''arguments'' (JObj [])"
  shows "handler_calls (handle_mcp_request repr self data) = [(JStr n, arguments)] \<and>
         reply (handle_mcp_request repr self data) =
           (case handler t arguments of
              Returns result \<Rightarrow>
                Inr (JObj [(''jsonrpc'', JStr ''2.0''), (''id'', dict_get d ''id'' JNull),
                           (''result'',
                              JObj [(''content'',
                                       JArr [JObj [(''type'', JStr ''text''),
                                                   (''text'', JStr (json_dumps result))]])])],
                     200)
            | Raises msg \<Rightarrow>
                Inr (JObj [(''jsonrpc'', JStr ''2.0''), (''id'', dict_get d ''id'' JNull),
                           (''error'', JObj [(''code'', JInt (- 32603)), (''message'', JStr msg)])],
                     200)
            | RaisesBase msg \<Rightarrow> Inl (Uncaught msg)) \<and>
         reply (handle_mcp_request repr
                  (self\<lparr>tools := AList.update n (t\<lparr>inputSchema := schema\<rparr>) (tools self)\<rparr>) data) =
           reply (handle_mcp_request repr self data)"
proof -
  let ?self' = "self\<lparr>tools := AList.update n (t\<lparr>inputSchema := schema\<rparr>) (tools self)\<rparr>"
  have t': "map_of (tools ?self') n = Some (t\<lparr>inputSchema := schema\<rparr>)"
    by (simp add: update_conv')
  have a: "handle_mcp_request repr self data =
      call_tool self (dict_get d ''id'' JNull) (JStr n) t arguments"
    using assms by (simp add: handle_registered_call)
  have b: "handle_mcp_request repr ?self' data =
      call_tool ?self' (dict_get d ''id'' JNull) (JStr n) (t\<lparr>inputSchema := schema\<rparr>) arguments"
    using assms(1-4,6) t' by (simp add: handle_registered_call)
  show ?thesis
    unfolding a b
    by (simp add: call_tool_def result_envelope_def error_envelope_def split: call_outcome.split)
qed

theorem required_not_enforced_witness:
  "handler_calls (handle_mcp_request demo_repr city_required_server prayer_times_request) =
     [(JStr ''get_prayer_times'', JObj [])] \<and>
   reply (handle_mcp_request demo_repr city_required_server prayer_times_request) =
     Inr (JObj [(''jsonrpc'', JStr ''2.0''), (''id'', JInt 7),
                (''result'',
                   JObj [(''content'',
                            JArr [JObj [(''type'', JStr ''text''),
                                        (''text'',
                                           JStr (json_dumps (JObj [(''city'', JStr ''Ouagadougou'')])))]])])],
          200)"
proof -
  let ?p = "[(''name'', JStr ''get_prayer_times''), (''arguments'', JObj [])]"
  let ?d = "[(''jsonrpc'', JStr ''2.0''), (''id'', JInt 7), (''method'', JStr ''tools/call''),
             (''params'', JObj ?p)]"
  let ?t = "tool_dict ''get_prayer_times'' ''Horaires des 5 prieres''
              [(''properties'', JObj [(''city'', JObj [(''type'', JStr ''string'')])]),
               (''required'', JArr [JStr ''city''])]
              demo_prayer_times"
  have m: "dict_get ?d ''method'' (JStr '''') = JStr ''tools/call''"
    and ps: "dict_get ?d ''params'' (JObj []) = JObj ?p"
    and nm: "dict_get ?p ''name'' JNull = JStr ''get_prayer_times''"
    and args: "JObj [] = dict_get ?p ''arguments'' (JObj [])"
    and rid: "dict_get ?d ''id'' JNull = JInt 7"
    by (simp_all add: dict_get_def)
  have t: "map_of (tools city_required_server) ''get_prayer_times'' = Some ?t"
    by (simp add: city_required_server_def tool_def MCPServer_init_def)
  have h: "handler ?t (JObj []) = Returns (JObj [(''city'', JStr ''Ouagadougou'')])"
    by (simp add: tool_dict_def demo_prayer_times_def)
  from required_not_enforced
         [of prayer_times_request ?d ?p "''get_prayer_times''" city_required_server ?t "JObj []"
             demo_repr,
          OF _ m ps nm t args]
  show ?thesis by (simp add: prayer_times_request_def rid h)
qed

section \<open>Initialize\<close>

text \<open>
  C6. An \<open>initialize\<close> request is answered on status 200 with the request's id and the
  fixed result object: the protocol version \<open>2024-11-05\<close>, the server's name and version,
  and \<open>capabilities.tools.listChanged = false\<close>. The call leaves the server object as it
  was and runs no handler, so the same request sent again is answered identically.
\<close>

theorem initialize_fixed_result:
  assumes "data = JObj d"
    and "dict_get d ''method'' (JStr '''') = JStr ''initialize''"
  shows "reply (handle_mcp_request repr self data) =
           Inr (JObj [(''jsonrpc'', JStr ''2.0''), (''id'', dict_get d ''id'' JNull),
                      (''result'',
                         JObj [(''protocolVersion'', JStr ''2024-11-05''),
                               (''serverInfo'', JObj [(''name'', JStr (server_name self)),
                                                      (''version'', JStr (version self))]),
                               (''capabilities'',
                                  JObj [(''tools'', JObj [(''listChanged'', JBool False)])])])],
                200) \<and>
         handler_calls (handle_mcp_request repr self data) = [] \<and>
         server_after (handle_mcp_request repr self data) = self \<and>
         handle_mcp_request repr (server_after (handle_mcp_request repr self data)) data =
           handle_mcp_request repr self data"
proof -
  from assms(2) have "d \<noteq> []" by (rule method_present_nonempty) simp
  with assms show ?thesis
    by (simp add: handle_object responds_def result_envelope_def)
qed

lemma demo_server_identity:
  "server_name demo_server = ''info-agent''" "version demo_server = ''2.0.0''"
  by (simp_all add: demo_server_def startup_def demo_registrations_def MCPServer_init_def tool_def)

theorem initialize_fixed_result_witness:
  "reply (handle_mcp_request demo_repr demo_server
            (JObj [(''jsonrpc'', JStr ''2.0''), (''id'', JInt 0), (''method'', JStr ''initialize'')])) =
     Inr (JObj [(''jsonrpc'', JStr ''2.0''), (''id'', JInt 0),
                (''result'',
                   JObj [(''protocolVersion'', JStr ''2024-11-05''),
                         (''serverInfo'', JObj [(''name'', JStr ''info-agent''),
                                                (''version'', JStr ''2.0.0'')]),
                         (''capabilities'',
                            JObj [(''tools'', JObj [(''listChanged'', JBool False)])])])],
          200)"
proof -
  let ?d = "[(''jsonrpc'', JStr ''2.0''), (''id'', JInt 0), (''method'', JStr ''initialize'')]"
  have m: "dict_get ?d ''method'' (JStr '''') = JStr ''initialize''"
    and rid: "dict_get ?d ''id'' JNull = JInt 0"
    by (simp_all add: dict_get_def)
  from initialize_fixed_result [OF refl m, of demo_repr demo_server]
  show ?thesis by (simp only: rid demo_server_identity)
qed

section \<open>Registering tools\<close>

lemma tool_keys:
  "map fst (tools (tool self nm descr parameters func)) =
     (if nm \<in> set (map fst (tools self)) then map fst (tools self)
      else map fst (tools self) @ [nm])"
  by (simp add: tool_def update_keys)

lemma tool_lookup:
  "map_of (tools (tool self nm descr parameters func)) =
     (map_of (tools self))(nm \<mapsto> tool_dict nm descr parameters func)"
  by (simp add: tool_def update_conv')

text \<open>
  C9, as stated, fails: \<open>calculate\<close> is registered, registering it again goes through,
  and the registry then holds the second definition under that name.
\<close>

theorem duplicate_rejected_counterexample:
  "''calculate'' \<in> fst ` set (tools demo_server) \<and>
   map_option description (map_of (tools demo_server) ''calculate'') =
     Some ''Effectue des calculs'' \<and>
   map_option description
     (map_of (tools (tool demo_server ''calculate'' ''Horaires des 5 prieres'' [] demo_prayer_times))
        ''calculate'') =
     Some ''Horaires des 5 prieres'' \<and>
   tools (tool demo_server ''calculate'' ''Horaires des 5 prieres'' [] demo_prayer_times) \<noteq>
     tools demo_server"
proof -
  have a: "map_option description (map_of (tools demo_server) ''calculate'') =
      Some ''Effectue des calculs''"
    by (simp add: demo_server_tools tool_dict_def)
  have b: "map_option description
      (map_of (tools (tool demo_server ''calculate'' ''Horaires des 5 prieres'' [] demo_prayer_times))
         ''calculate'') = Some ''Horaires des 5 prieres''"
    by (simp add: tool_lookup tool_dict_def)
  have c: "''calculate'' \<in> fst ` set (tools demo_server)"
    by (simp add: demo_server_tools)
  have "tools (tool demo_server ''calculate'' ''Horaires des 5 prieres'' [] demo_prayer_times) \<noteq>
      tools demo_server"
  proof
    assume "tools (tool demo_server ''calculate'' ''Horaires des 5 prieres'' [] demo_prayer_times) =
      tools demo_server"
    with a b show False by auto
  qed
  with a b c show ?thesis by simp
qed

text \<open>
  C9, amended. Registering a definition under a name the registry already holds raises
  nothing and replaces the existing definition where it stands: the names and their order
  are as before, the name now maps to the new definition, every other name maps to what
  it did, and the server's name, description and version are untouched.
\<close>

theorem duplicate_replaces_in_place:
  assumes "nm \<in> fst ` set (tools self)"
  shows "map fst (tools (tool self nm descr parameters func)) = map fst (tools self) \<and>
         map_of (tools (tool self nm descr parameters func)) nm =
           Some \<lparr>name = nm, description = descr,
                 inputSchema = JObj [(''type'', JStr ''object''),
                                     (''properties'', dict_get parameters ''properties'' (JObj [])),
                                     (''required'', dict_get parameters ''required'' (JArr []))],
                 handler = func\<rparr> \<and>
         (k \<noteq> nm \<longrightarrow>
            map_of (tools (tool self nm descr parameters func)) k = map_of (tools self) k) \<and>
         server_name (tool self nm descr parameters func) = server_name self \<and>
         server_description (tool self nm descr parameters func) = server_description self \<and>
         version (tool self nm descr parameters func) = version self"
proof -
  from assms have "map fst (tools (tool self nm descr parameters func)) = map fst (tools self)"
    by (simp add: tool_keys)
  then show ?thesis
    by (simp add: tool_lookup tool_dict_def) (simp add: tool_def)
qed

theorem duplicate_replaces_in_place_witness:
  "map fst (tools (tool demo_server ''calculate'' ''Horaires des 5 prieres'' [] demo_prayer_times)) =
     [''calculate'', ''get_prayer_times''] \<and>
   map_option description
     (map_of (tools (tool demo_server ''calculate'' ''Horaires des 5 prieres'' [] demo_prayer_times))
        ''calculate'') =
     Some ''Horaires des 5 prieres'' \<and>
   map_option description
     (map_of (tools (tool demo_server ''calculate'' ''Horaires des 5 prieres'' [] demo_prayer_times))
        ''get_prayer_times'') =
     Some ''Horaires des 5 prieres''"
proof -
  have c: "''calculate'' \<in> fst ` set (tools demo_server)"
    by (simp add: demo_server_tools)
  from duplicate_replaces_in_place
         [OF c, of "''Horaires des 5 prieres''" "[]" demo_prayer_times "''get_prayer_times''"]
  show ?thesis by (simp add: demo_server_tools tool_dict_def)
qed

section \<open>Listing the tools\<close>

lemma register_keys:
  "map fst (tools (register self r)) =
     (if fst r \<in> set (map fst (tools self)) then map fst (tools self)
      else map fst (tools self) @ [fst r])"
  by (cases r) (simp add: tool_keys)

lemma register_lookup:
  "map_of (tools (register self r)) = (map_of (tools self))(fst r \<mapsto> registered_definition r)"
  by (cases r) (simp add: tool_lookup)

lemma register_identity:
  "server_name (register self r) = server_name self"
  "version (register self r) = version self"
  by (cases r; simp add: tool_def)+

lemma foldl_register_keys:
  "map fst (tools (foldl register self regs)) =
     foldl (\<lambda>seen n. if n \<in> set seen then seen else seen @ [n])
       (map fst (tools self)) (map fst regs)"
proof (induction regs arbitrary: self)
  case Nil
  show ?case by simp
next
  case (Cons r regs)
  show ?case by (simp add: Cons.IH register_keys)
qed

lemma startup_keys:
  "map fst (tools (startup nm descr ver regs)) = registration_order (map fst regs)"
  by (simp add: startup_def registration_order_def foldl_register_keys MCPServer_init_def)

lemma seen_distinct:
  "distinct seen \<Longrightarrow>
   distinct (foldl (\<lambda>seen n. if n \<in> set seen then seen else seen @ [n]) seen names)"
  by (induction names arbitrary: seen) simp_all

lemma seen_set:
  "set (foldl (\<lambda>seen n. if n \<in> set seen then seen else seen @ [n]) seen names) =
     set seen \<union> set names"
  by (induction names arbitrary: seen) auto

lemma seen_distinct_names:
  "distinct (seen @ names) \<Longrightarrow>
   foldl (\<lambda>seen n. if n \<in> set seen then seen else seen @ [n]) seen names = seen @ names"
  by (induction names arbitrary: seen) auto

lemma registration_order_distinct: "distinct (registration_order names)"
  by (simp add: registration_order_def seen_distinct)

lemma registration_order_set: "set (registration_order names) = set names"
  by (simp add: registration_order_def seen_set)

lemma registration_order_id: "distinct names \<Longrightarrow> registration_order names = names"
  using seen_distinct_names [of "[]" names] by (simp add: registration_order_def)

lemma foldl_register_lookup:
  "map_of (tools (foldl register self regs)) k =
     (case find (\<lambda>r. fst r = k) (rev regs) of
        None \<Rightarrow> map_of (tools self) k
      | Some r \<Rightarrow> Some (registered_definition r))"
proof (induction regs rule: rev_induct)
  case Nil
  show ?case by simp
next
  case (snoc r regs)
  show ?case by (simp add: register_lookup snoc.IH)
qed

lemma startup_lookup:
  "map_of (tools (startup nm descr ver regs)) k =
     map_option registered_definition (find (\<lambda>r. fst r = k) (rev regs))"
  by (simp add: startup_def foldl_register_lookup MCPServer_init_def split: option.split)

lemma startup_entry:
  assumes "(k, t) \<in> set (tools (startup nm descr ver regs))"
  shows "\<exists>r. find (\<lambda>r. fst r = k) (rev regs) = Some r \<and> t = registered_definition r \<and> name t = k"
proof -
  have "distinct (map fst (tools (startup nm descr ver regs)))"
    by (simp add: startup_keys registration_order_distinct)
  from this assms have "map_of (tools (startup nm descr ver regs)) k = Some t"
    by (rule map_of_is_SomeI)
  then obtain r where r: "find (\<lambda>r. fst r = k) (rev regs) = Some r" and t: "t = registered_definition r"
    by (auto simp: startup_lookup)
  from r have "fst r = k" by (auto simp: find_Some_iff)
  with t have "name t = k" by (cases r) (simp add: tool_dict_def)
  with r t show ?thesis by blast
qed

lemma handle_tools_list:
  assumes "dict_get d ''method'' (JStr '''') = JStr ''tools/list''"
  shows "handle_mcp_request repr self (JObj d) =
           responds self
             (result_envelope (dict_get d ''id'' JNull)
                (JObj [(''tools'', JArr (map tool_entry (map snd (tools self))))]))
             200"
proof -
  from assms have "d \<noteq> []" by (rule method_present_nonempty) simp
  with assms show ?thesis by (simp add: handle_object comp_def)
qed

text \<open>
  C7. For the registry that start-up builds from any sequence of registrations, a
  \<open>tools/list\<close> request is answered on status 200 with one entry per definition the
  registry holds, each carrying the definition's name, description and input schema. The
  names of the entries are the registered names, each once, in the order in which they
  were first registered (the registered sequence itself when no name repeats), and each
  entry is the definition last registered under its name. The call runs no handler and
  leaves the server object as it was, so a repeated call returns the same reply.
\<close>

theorem tools_list_one_entry_per_name:
  assumes "self = startup nm descr ver regs"
    and "data = JObj d"
    and "dict_get d ''method'' (JStr '''') = JStr ''tools/list''"
    and "listed = map snd (tools self)"
  shows "reply (handle_mcp_request repr self data) =
           Inr (JObj [(''jsonrpc'', JStr ''2.0''), (''id'', dict_get d ''id'' JNull),
                      (''result'',
                         JObj [(''tools'',
                                  JArr (map (\<lambda>t. JObj [(''name'', JStr (name t)),
                                                         (''description'', JStr (description t)),
                                                         (''inputSchema'', inputSchema t)])
                                          listed))])],
                200) \<and>
         map name listed = registration_order (map fst regs) \<and>
         distinct (map name listed) \<and>
         set (map name listed) = set (map fst regs) \<and>
         (distinct (map fst regs) \<longrightarrow> map name listed = map fst regs) \<and>
         (\<forall>t \<in> set listed.
            \<exists>r. find (\<lambda>r. fst r = name t) (rev regs) = Some r \<and> t = registered_definition r) \<and>
         handler_calls (handle_mcp_request repr self data) = [] \<and>
         server_after (handle_mcp_request repr self data) = self \<and>
         handle_mcp_request repr (server_after (handle_mcp_request repr self data)) data =
           handle_mcp_request repr self data"
proof -
  have entry: "\<exists>r. find (\<lambda>r. fst r = name t) (rev regs) = Some r \<and> t = registered_definition r"
    and key: "name t = k"
    if "(k, t) \<in> set (tools self)" for k t
    using startup_entry [of k t nm descr ver regs] that assms(1) by auto
  have "map name listed = map fst (tools self)"
    unfolding assms(4) using key by (induction "tools self") auto
  then have names: "map name listed = registration_order (map fst regs)"
    by (simp add: assms(1) startup_keys)
  have each: "\<forall>t \<in> set listed.
      \<exists>r. find (\<lambda>r. fst r = name t) (rev regs) = Some r \<and> t = registered_definition r"
    unfolding assms(4) using entry by auto
  have run: "handle_mcp_request repr self data =
      responds self
        (result_envelope (dict_get d ''id'' JNull)
           (JObj [(''tools'', JArr (map tool_entry listed))]))
        200"
    using assms(2,3,4) by (simp add: handle_tools_list)
  have tool_entry_eq: "tool_entry =
      (\<lambda>t. JObj [(''name'', JStr (name t)), (''description'', JStr (description t)),
                  (''inputSchema'', inputSchema t)])"
    by (rule ext) (simp add: tool_entry_def)
  from names each show ?thesis
    by (simp add: run responds_def result_envelope_def tool_entry_eq
          registration_order_distinct registration_order_set registration_order_id)
qed

theorem tools_list_one_entry_per_name_witness:
  "reply (handle_mcp_request demo_repr demo_server
            (JObj [(''jsonrpc'', JStr ''2.0''), (''id'', JInt 1), (''method'', JStr ''tools/list'')])) =
     Inr (JObj [(''jsonrpc'', JStr ''2.0''), (''id'', JInt 1),
                (''result'',
                   JObj [(''tools'',
                      JArr [JObj [(''name'', JStr ''calculate''),
                                  (''description'', JStr ''Effectue des calculs''),
                                  (''inputSchema'',
                                     JObj [(''type'', JStr ''object''),
                                           (''properties'',
                                              JObj [(''expression'', JObj [(''type'', JStr ''string'')])]),
                                           (''required'', JArr [JStr ''expression''])])],
                            JObj [(''name'', JStr ''get_prayer_times''),
                                  (''description'', JStr ''Horaires des 5 prieres''),
                                  (''inputSchema'',
                                     JObj [(''type'', JStr ''object''),
                                           (''properties'',
                                              JObj [(''city'', JObj [(''type'', JStr ''string'')])]),
                                           (''required'', JArr [])])]])])],
          200) \<and>
   map name (map snd (tools demo_server)) = map fst demo_registrations"
proof -
  let ?d = "[(''jsonrpc'', JStr ''2.0''), (''id'', JInt 1), (''method'', JStr ''tools/list'')]"
  have m: "dict_get ?d ''method'' (JStr '''') = JStr ''tools/list''"
    and rid: "dict_get ?d ''id'' JNull = JInt 1"
    by (simp_all add: dict_get_def)
  have dn: "distinct (map fst demo_registrations)"
    by (simp add: demo_registrations_def)
  note th = tools_list_one_entry_per_name [OF demo_server_def refl m refl, of demo_repr]
  from th have r: "reply (handle_mcp_request demo_repr demo_server (JObj ?d)) =
      Inr (JObj [(''jsonrpc'', JStr ''2.0''), (''id'', dict_get ?d ''id'' JNull),
                 (''result'',
                    JObj [(''tools'',
                             JArr (map (\<lambda>t. JObj [(''name'', JStr (name t)),
                                                    (''description'', JStr (description t)),
                                                    (''inputSchema'', inputSchema t)])
                                     (map snd (tools demo_server))))])],
           200)"
    by (rule conjunct1)
  from th dn have n: "map name (map snd (tools demo_server)) = map fst demo_registrations"
    by blast
  from r n show ?thesis
    by (simp add: rid demo_server_tools tool_dict_def dict_get_def)
qed

end
